theory Spec2Isabelle
  imports Complex_Main
begin

section \<open>Liquid glass: the numeric engine of \<open>lib/liquid-glass.umd.js\<close>\<close>

text \<open>
  The development embeds the UMD build of the library: the surface profiles, the spring
  integrator, the one-dimensional refraction solver, the two rasterizers, the filter
  rebuild (\<open>_updateFilter\<close>, \<open>setOptions\<close>) and the animation loop.

  Conventions.
  \<^item> A JavaScript number is modelled as a \<^typ>\<open>real\<close>: rounding, \<open>NaN\<close> and the
    infinities are not represented. \<open>Math.sqrt\<close> is \<^const>\<open>sqrt\<close>, \<open>Math.pow\<close> with
    a literal integer exponent is \<open>^\<close>, \<open>Math.pow(b, 1 / 4)\<close> is \<open>b powr (1 / 4)\<close>
    (they agree for \<open>b \<ge> 0\<close>, which is where the profiles are used).
  \<^item> Where a value that the rasterizers divide by can be zero or \<open>-Infinity\<close> (the
    bezel width, the maximum displacement), the model writes out what JavaScript does
    there. In the solver a zero \<open>refractiveIndex\<close> or a zero vertical component of
    the refracted ray makes JavaScript produce an infinity or \<open>NaN\<close> where the quotient
    of HOL is 0: at such inputs the model gives the formula, not the JavaScript value.
  \<^item> Pixel counts and loop counters are \<^typ>\<open>nat\<close>.
  \<^item> A method name loses its leading underscore.
  \<^item> An exception is a value of \<open>error\<close>, returned in the left injection of a sum.
\<close>

subsection \<open>Surface equations\<close>

definition convex_circle :: "real \<Rightarrow> real" where
  "convex_circle x = sqrt (1 - (1 - x) ^ 2)"

definition convex_squircle :: "real \<Rightarrow> real" where
  "convex_squircle x = (1 - (1 - x) ^ 4) powr (1 / 4)"

definition concave :: "real \<Rightarrow> real" where
  "concave x = 1 - sqrt (1 - x ^ 2)"

text \<open>The three local variables of \<open>lip\<close>, each as a function of \<open>x\<close>.\<close>

definition lip_convex :: "real \<Rightarrow> real" where
  "lip_convex x = (1 - (1 - min (x * 2) 1) ^ 4) powr (1 / 4)"

definition lip_concave :: "real \<Rightarrow> real" where
  "lip_concave x = 1 - sqrt (1 - (1 - x) ^ 2) + 0.1"

definition smootherstep :: "real \<Rightarrow> real" where
  "smootherstep x = 6 * x ^ 5 - 15 * x ^ 4 + 10 * x ^ 3"

definition lip :: "real \<Rightarrow> real" where
  "lip x = lip_convex x * (1 - smootherstep x) + lip_concave x * smootherstep x"

text \<open>The own properties of the object literal \<open>SurfaceEquations\<close>.\<close>

definition SurfaceEquations :: "string \<Rightarrow> (real \<Rightarrow> real) option" where
  "SurfaceEquations key =
     (if key = ''convex_circle'' then Some convex_circle
      else if key = ''convex_squircle'' then Some convex_squircle
      else if key = ''concave'' then Some concave
      else if key = ''lip'' then Some lip
      else None)"

subsection \<open>Spring\<close>

record Spring =
  "value" :: real
  target :: real
  velocity :: real
  stiffness :: real
  damping :: real

text \<open>The constructor: \<open>stiffness || 300\<close> and \<open>damping || 20\<close> replace a zero.\<close>

definition new_Spring :: "real \<Rightarrow> real \<Rightarrow> real \<Rightarrow> Spring" where
  "new_Spring v k c =
     \<lparr>value = v, target = v, velocity = 0,
      stiffness = (if k = 0 then 300 else k),
      damping = (if c = 0 then 20 else c)\<rparr>"

definition setTarget :: "real \<Rightarrow> Spring \<Rightarrow> Spring" where
  "setTarget t s = s\<lparr>target := t\<rparr>"

definition update :: "real \<Rightarrow> Spring \<Rightarrow> Spring" where
  "update dt s =
     (let force = (target s - value s) * stiffness s;
          dampingForce = velocity s * damping s;
          s1 = s\<lparr>velocity := velocity s + (force - dampingForce) * dt\<rparr>
      in s1\<lparr>value := value s1 + velocity s1 * dt\<rparr>)"

definition isSettled :: "Spring \<Rightarrow> bool" where
  "isSettled s = (\<bar>target s - value s\<bar> < 0.001 \<and> \<bar>velocity s\<bar> < 0.001)"

subsection \<open>Errors\<close>

text \<open>
  \<open>TypeError\<close>: calling a value that is not a function. \<open>IndexSizeError\<close>: the
  \<open>ImageData\<close> constructor refuses a zero width or height.
\<close>

datatype error = TypeError | IndexSizeError

subsection \<open>The one-dimensional refraction solver\<close>

text \<open>The inner function \<open>refract\<close>; \<open>None\<close> is its \<open>null\<close> (total internal reflection).\<close>

definition refract :: "real \<Rightarrow> real \<Rightarrow> real \<Rightarrow> (real \<times> real) option" where
  "refract eta normalX normalY =
     (let dot = normalY;
          k = 1 - eta * eta * (1 - dot * dot)
      in if k < 0 then None
         else (let kSqrt = sqrt k
               in Some (- (eta * dot + kSqrt) * normalX, eta - (eta * dot + kSqrt) * normalY)))"

text \<open>The sample coordinate, the finite-difference step and the clamped second abscissa.\<close>

definition sample_x :: "nat \<Rightarrow> nat \<Rightarrow> real" where
  "sample_x samples i = real i / real samples"

definition sample_dx :: "real \<Rightarrow> real" where
  "sample_dx x = (if x < 1 then 0.0001 else - 0.0001)"

definition perturbed :: "real \<Rightarrow> real \<Rightarrow> real" where
  "perturbed x dx = max 0 (min 1 (x + dx))"

text \<open>The rest of the loop body, once \<open>x\<close> and \<open>dx\<close> are fixed: the value pushed.\<close>

definition sample_at :: "real \<Rightarrow> real \<Rightarrow> (real \<Rightarrow> real) \<Rightarrow> real \<Rightarrow> real \<Rightarrow> real \<Rightarrow> real" where
  "sample_at glassThickness bezelWidth surfaceFn eta x dx =
     (let y = surfaceFn x;
          y2 = surfaceFn (perturbed x dx);
          derivative = (y2 - y) / dx;
          magnitude = sqrt (derivative * derivative + 1);
          normal = (- derivative / magnitude, - 1 / magnitude)
      in case refract eta (fst normal) (snd normal) of
           None \<Rightarrow> 0
         | Some refracted \<Rightarrow>
             (let remainingHeightOnBezel = y * bezelWidth;
                  remainingHeight = remainingHeightOnBezel + glassThickness
              in fst refracted * (remainingHeight / snd refracted)))"

definition sample1D :: "real \<Rightarrow> real \<Rightarrow> (real \<Rightarrow> real) \<Rightarrow> real \<Rightarrow> nat \<Rightarrow> nat \<Rightarrow> real" where
  "sample1D glassThickness bezelWidth surfaceFn eta samples i =
     (let x = sample_x samples i;
          dx = sample_dx x
      in sample_at glassThickness bezelWidth surfaceFn eta x dx)"

text \<open>
  The \<open>for\<close> loop. \<open>surfaceFn\<close> is what the property lookup gave: \<open>None\<close> is
  \<open>undefined\<close>, and calling it in the first line of the body throws.
\<close>

function loop1D ::
  "real \<Rightarrow> real \<Rightarrow> (real \<Rightarrow> real) option \<Rightarrow> real \<Rightarrow> nat \<Rightarrow> nat \<Rightarrow> real list \<Rightarrow> error + real list"
where
  "loop1D glassThickness bezelWidth surfaceFn eta samples i result =
     (if i < samples then
        (case surfaceFn of
           None \<Rightarrow> Inl TypeError
         | Some f \<Rightarrow>
             loop1D glassThickness bezelWidth surfaceFn eta samples (Suc i)
               (result @ [sample1D glassThickness bezelWidth f eta samples i]))
      else Inr result)"
  by pat_completeness auto
termination
  by (relation "measure (\<lambda>(gt, bw, sf, eta, samples, i, result). samples - i)") auto

text \<open>
  \<open>samples = samples || 128\<close>: an omitted argument (\<open>None\<close>) and the argument 0 both
  become 128.
\<close>

definition calculateDisplacementMap1D ::
  "real \<Rightarrow> real \<Rightarrow> (real \<Rightarrow> real) option \<Rightarrow> real \<Rightarrow> nat option \<Rightarrow> error + real list"
where
  "calculateDisplacementMap1D glassThickness bezelWidth surfaceFn refractiveIndex samples0 =
     (let samples = (case samples0 of None \<Rightarrow> 128 | Some n \<Rightarrow> if n = 0 then 128 else n);
          eta = 1 / refractiveIndex
      in loop1D glassThickness bezelWidth surfaceFn eta samples 0 [])"

subsection \<open>Image buffers\<close>

text \<open>
  \<open>ImageData\<close>: \<open>data\<close> is the \<open>Uint8ClampedArray\<close> of \<open>4 \<times> width \<times> height\<close> bytes, zero
  after construction. The constructor throws for a zero width or height.
\<close>

record ImageData =
  width :: nat
  height :: nat
  data :: "int list"

definition new_ImageData :: "nat \<Rightarrow> nat \<Rightarrow> error + ImageData" where
  "new_ImageData sw sh =
     (if sw = 0 \<or> sh = 0 then Inl IndexSizeError
      else Inr \<lparr>width = sw, height = sh, data = replicate (4 * sw * sh) 0\<rparr>)"

text \<open>
  Storing a number into a \<open>Uint8ClampedArray\<close>: clamp to \<open>[0, 255]\<close> and round to the
  nearest integer, ties to even.
\<close>

definition ToUint8Clamp :: "real \<Rightarrow> int" where
  "ToUint8Clamp v =
     (if v \<le> 0 then 0
      else if 255 \<le> v then 255
      else (let f = \<lfloor>v\<rfloor>
            in if real_of_int f + 1 / 2 < v then f + 1
               else if v < real_of_int f + 1 / 2 then f
               else if even f then f else f + 1))"

text \<open>
  \<open>data[idx] = v\<close> for a numeric index: an index that is not an integer inside the array
  stores nothing.
\<close>

definition ta_set :: "int list \<Rightarrow> real \<Rightarrow> real \<Rightarrow> int list" where
  "ta_set d idx v =
     (if idx \<in> \<int> \<and> 0 \<le> idx \<and> idx < real (length d)
      then d[nat \<lfloor>idx\<rfloor> := ToUint8Clamp v] else d)"

text \<open>The four stores \<open>data[idx]\<close>, \<open>data[idx + 1]\<close>, \<open>data[idx + 2]\<close>, \<open>data[idx + 3]\<close>.\<close>

definition store_pixel :: "int list \<Rightarrow> real \<Rightarrow> real \<times> real \<times> real \<times> real \<Rightarrow> int list" where
  "store_pixel d idx px =
     (case px of (r, g, b, a) \<Rightarrow>
        ta_set (ta_set (ta_set (ta_set d idx r) (idx + 1) g) (idx + 2) b) (idx + 3) a)"



text \<open>
  The pixel loop of both rasterizers: \<open>for y1 < objectHeight\<close>, \<open>for x1 < objectWidth\<close>,
  compute the index \<open>idx\<close>, and when the pixel qualifies (\<open>px x1 y1\<close> is not \<open>None\<close>)
  store its four bytes.
\<close>

definition raster_loop ::
  "(nat \<Rightarrow> nat \<Rightarrow> real) \<Rightarrow> (nat \<Rightarrow> nat \<Rightarrow> (real \<times> real \<times> real \<times> real) option)
   \<Rightarrow> nat \<Rightarrow> nat \<Rightarrow> int list \<Rightarrow> int list"
where
  "raster_loop idx px objectWidth objectHeight d0 =
     fold (\<lambda>y1. fold (\<lambda>x1 d. case px x1 y1 of
                                  None \<Rightarrow> d
                                | Some v \<Rightarrow> store_pixel d (idx x1 y1) v)
                 [0..<objectWidth])
       [0..<objectHeight] d0"

subsection \<open>The displacement rasterizer\<close>

text \<open>The first loop: every pixel becomes \<open>(128, 128, 0, 255)\<close>.\<close>

function fill_neutral :: "nat \<Rightarrow> int list \<Rightarrow> int list" where
  "fill_neutral i d =
     (if i < length d
      then fill_neutral (i + 4) (d[i := 128, i + 1 := 128, i + 2 := 0, i + 3 := 255])
      else d)"
  by pat_completeness auto
termination
  by (relation "measure (\<lambda>(i, d). length d - i)") auto

text \<open>
  The corner-local coordinate along one axis (\<open>x\<close> from \<open>x1\<close> and the object width, \<open>y\<close>
  from \<open>y1\<close> and the object height): the offset from the corner centre near a rounded
  corner, 0 on the flat band between them.
\<close>

definition corner_offset :: "nat \<Rightarrow> nat \<Rightarrow> real \<Rightarrow> real" where
  "corner_offset x1 objectWidth radius =
     (let widthBetweenRadiuses = real objectWidth - radius * 2;
          isOnLeftSide = (real x1 < radius);
          isOnRightSide = (real x1 \<ge> real objectWidth - radius)
      in if isOnLeftSide then real x1 - radius
         else if isOnRightSide then real x1 - radius - widthBetweenRadiuses
         else 0)"

definition isInBezel :: "nat \<Rightarrow> nat \<Rightarrow> real \<Rightarrow> real \<Rightarrow> nat \<Rightarrow> nat \<Rightarrow> bool" where
  "isInBezel objectWidth objectHeight radius bezelWidth x1 y1 =
     (let radiusPlusOneSquared = (radius + 1) * (radius + 1);
          radiusMinusBezelSquared = max 0 ((radius - bezelWidth) * (radius - bezelWidth));
          x = corner_offset x1 objectWidth radius;
          y = corner_offset y1 objectHeight radius;
          distanceToCenterSquared = x * x + y * y
      in distanceToCenterSquared \<le> radiusPlusOneSquared
         \<and> distanceToCenterSquared \<ge> radiusMinusBezelSquared)"

text \<open>The anti-alias opacity, shared by both rasterizers.\<close>

definition edge_opacity :: "real \<Rightarrow> real \<Rightarrow> real" where
  "edge_opacity radius distanceToCenterSquared =
     (let radiusSquared = radius * radius;
          radiusPlusOneSquared = (radius + 1) * (radius + 1)
      in if distanceToCenterSquared < radiusSquared then 1
         else 1 - (sqrt distanceToCenterSquared - sqrt radiusSquared)
                  / (sqrt radiusPlusOneSquared - sqrt radiusSquared))"

text \<open>
  \<open>Math.max(0, Math.min(1, distanceFromSide / bezelWidth))\<close>. For a zero bezel width the
  quotient is an infinity, clamped to 1 or 0, or \<open>0 / 0\<close>, which stays \<open>NaN\<close>: \<open>None\<close>.
\<close>

definition bezel_ratio :: "real \<Rightarrow> real \<Rightarrow> real option" where
  "bezel_ratio distanceFromSide bezelWidth =
     (if bezelWidth = 0
      then (if 0 < distanceFromSide then Some 1
            else if distanceFromSide < 0 then Some 0 else None)
      else Some (max 0 (min 1 (distanceFromSide / bezelWidth))))"

text \<open>
  The table read \<open>precomputedMap[Math.max(0, Math.min(bezelIndex, length - 1))] || 0\<close>:
  a read outside the table (an empty table, a \<open>NaN\<close> index) is \<open>undefined\<close>, hence 0.
\<close>

definition table_distance :: "real list \<Rightarrow> real option \<Rightarrow> real" where
  "table_distance precomputedMap bezelRatio =
     (case bezelRatio of
        None \<Rightarrow> 0
      | Some ratio \<Rightarrow>
          (let bezelIndex = \<lfloor>ratio * real (length precomputedMap)\<rfloor>;
               k = max 0 (min bezelIndex (int (length precomputedMap) - 1))
           in if nat k < length precomputedMap then precomputedMap ! nat k else 0))"

text \<open>
  The largest absolute table entry, \<open>Math.max.apply(null, precomputed.map(Math.abs))\<close>:
  \<open>Math.max\<close> starts from \<open>-Infinity\<close>, which is its value for no arguments.
\<close>

datatype maxval = NegInfinity | Finite real

definition Math_max :: "real list \<Rightarrow> maxval" where
  "Math_max xs =
     fold (\<lambda>v m. case m of NegInfinity \<Rightarrow> Finite v | Finite u \<Rightarrow> Finite (max u v))
       xs NegInfinity"

text \<open>\<open>maximumDisplacement || 1\<close>: only 0 is replaced.\<close>

definition or_one :: "maxval \<Rightarrow> maxval" where
  "or_one m = (case m of NegInfinity \<Rightarrow> NegInfinity | Finite v \<Rightarrow> if v = 0 then Finite 1 else Finite v)"

text \<open>\<open>maximumDisplacement > 0 ? v / maximumDisplacement : 0\<close>.\<close>

definition normalized :: "maxval \<Rightarrow> real \<Rightarrow> real" where
  "normalized maximumDisplacement v =
     (case maximumDisplacement of
        NegInfinity \<Rightarrow> 0
      | Finite m \<Rightarrow> if m > 0 then v / m else 0)"

text \<open>
  The body of the pixel loop: \<open>None\<close> when the ring test fails, otherwise the four
  values assigned to \<open>data[idx]\<close>, \<dots>, \<open>data[idx + 3]\<close>.
\<close>

definition displacement_pixel ::
  "nat \<Rightarrow> nat \<Rightarrow> real \<Rightarrow> real \<Rightarrow> maxval \<Rightarrow> real list \<Rightarrow> nat \<Rightarrow> nat
   \<Rightarrow> (real \<times> real \<times> real \<times> real) option"
where
  "displacement_pixel objectWidth objectHeight radius bezelWidth maximumDisplacement
       precomputedMap x1 y1 =
     (let x = corner_offset x1 objectWidth radius;
          y = corner_offset y1 objectHeight radius;
          distanceToCenterSquared = x * x + y * y
      in if isInBezel objectWidth objectHeight radius bezelWidth x1 y1 then
           (let opacity = edge_opacity radius distanceToCenterSquared;
                distanceFromCenter = sqrt distanceToCenterSquared;
                distanceFromSide = radius - distanceFromCenter;
                cos' = (if distanceFromCenter > 0 then x / distanceFromCenter else 0);
                sin' = (if distanceFromCenter > 0 then y / distanceFromCenter else 0);
                bezelRatio = bezel_ratio distanceFromSide bezelWidth;
                distance = table_distance precomputedMap bezelRatio;
                dX = normalized maximumDisplacement (- cos' * distance);
                dY = normalized maximumDisplacement (- sin' * distance)
            in Some (max 0 (min 255 (128 + dX * 127 * opacity)),
                     max 0 (min 255 (128 + dY * 127 * opacity)),
                     0, 255))
         else None)"

definition calculateDisplacementMap2D ::
  "nat \<Rightarrow> nat \<Rightarrow> nat \<Rightarrow> nat \<Rightarrow> real \<Rightarrow> real \<Rightarrow> maxval \<Rightarrow> real list \<Rightarrow> error + ImageData"
where
  "calculateDisplacementMap2D canvasWidth canvasHeight objectWidth objectHeight radius
       bezelWidth maximumDisplacement precomputedMap =
     (case new_ImageData canvasWidth canvasHeight of
        Inl e \<Rightarrow> Inl e
      | Inr imageData \<Rightarrow>
          (let objectX = (real canvasWidth - real objectWidth) / 2;
               objectY = (real canvasHeight - real objectHeight) / 2
           in Inr (imageData\<lparr>data :=
                raster_loop
                  (\<lambda>x1 y1. ((objectY + real y1) * real canvasWidth + objectX + real x1) * 4)
                  (displacement_pixel objectWidth objectHeight radius bezelWidth
                     maximumDisplacement precomputedMap)
                  objectWidth objectHeight
                  (fill_neutral 0 (data imageData))\<rparr>)))"

subsection \<open>The specular rasterizer\<close>

definition isNearEdge :: "nat \<Rightarrow> nat \<Rightarrow> real \<Rightarrow> nat \<Rightarrow> nat \<Rightarrow> bool" where
  "isNearEdge objectWidth objectHeight radius x1 y1 =
     (let specularThickness = 1.5;
          radiusPlusOneSquared = (radius + 1) * (radius + 1);
          radiusMinusSpecularSquared =
            max 0 ((radius - specularThickness) * (radius - specularThickness));
          x = corner_offset x1 objectWidth radius;
          y = corner_offset y1 objectHeight radius;
          distanceToCenterSquared = x * x + y * y
      in distanceToCenterSquared \<le> radiusPlusOneSquared
         \<and> distanceToCenterSquared \<ge> radiusMinusSpecularSquared)"

text \<open>
  The body of the pixel loop: \<open>None\<close> when the edge test fails, otherwise the four
  values assigned: \<open>color\<close> three times and \<open>finalOpacity\<close>.
\<close>

definition specular_pixel ::
  "nat \<Rightarrow> nat \<Rightarrow> real \<Rightarrow> real \<times> real \<Rightarrow> nat \<Rightarrow> nat
   \<Rightarrow> (real \<times> real \<times> real \<times> real) option"
where
  "specular_pixel objectWidth objectHeight radius specularVector x1 y1 =
     (let specularThickness = 1.5;
          x = corner_offset x1 objectWidth radius;
          y = corner_offset y1 objectHeight radius;
          distanceToCenterSquared = x * x + y * y
      in if isNearEdge objectWidth objectHeight radius x1 y1 then
           (let distanceFromCenter = sqrt distanceToCenterSquared;
                distanceFromSide = radius - distanceFromCenter;
                opacity = edge_opacity radius distanceToCenterSquared;
                cos' = (if distanceFromCenter > 0 then x / distanceFromCenter else 0);
                sin' = (if distanceFromCenter > 0 then - y / distanceFromCenter else 0);
                dotProduct = \<bar>cos' * fst specularVector + sin' * snd specularVector\<bar>;
                edgeRatio = max 0 (min 1 (distanceFromSide / specularThickness));
                sharpFalloff = sqrt (1 - (1 - edgeRatio) * (1 - edgeRatio));
                coefficient = dotProduct * sharpFalloff;
                color = min 255 (255 * coefficient);
                finalOpacity = min 255 (color * coefficient * opacity)
            in Some (color, color, color, finalOpacity))
         else None)"

text \<open>\<open>specularAngle || Math.PI / 3\<close>: an omitted or zero angle becomes \<open>\<pi> / 3\<close>.\<close>

definition calculateSpecularHighlight ::
  "nat \<Rightarrow> nat \<Rightarrow> real \<Rightarrow> real \<Rightarrow> real option \<Rightarrow> error + ImageData"
where
  "calculateSpecularHighlight objectWidth objectHeight radius bezelWidth specularAngle0 =
     (let specularAngle =
            (case specularAngle0 of None \<Rightarrow> pi / 3 | Some a \<Rightarrow> if a = 0 then pi / 3 else a)
      in case new_ImageData objectWidth objectHeight of
           Inl e \<Rightarrow> Inl e
         | Inr imageData \<Rightarrow>
             (let specularVector = (cos specularAngle, sin specularAngle)
              in Inr (imageData\<lparr>data :=
                   raster_loop (\<lambda>x1 y1. real ((y1 * objectWidth + x1) * 4))
                     (specular_pixel objectWidth objectHeight radius specularVector)
                     objectWidth objectHeight (data imageData)\<rparr>)))"

subsection \<open>The instance: options, state, springs\<close>

text \<open>
  Of the options, those that the numeric engine reads; \<open>springConfig\<close> is the pair
  (stiffness, damping).
\<close>

record Options =
  surfaceType :: string
  bezelWidth :: real
  glassThickness :: real
  refractiveIndex :: real
  refractionScale :: real
  specularOpacity :: real
  blur :: real
  springAnimation :: bool
  springConfig :: "real \<times> real"

definition defaultOptions :: Options where
  "defaultOptions =
     \<lparr>surfaceType = ''convex_squircle'', bezelWidth = 30, glassThickness = 150,
      refractiveIndex = 1.5, refractionScale = 1.5, specularOpacity = 1, blur = 0.5,
      springAnimation = True, springConfig = (400, 25)\<rparr>"

text \<open>An options object given by the caller: a list of keys with their values.\<close>

datatype option_entry =
    SurfaceType string
  | BezelWidth real
  | GlassThickness real
  | RefractiveIndex real
  | RefractionScale real
  | SpecularOpacity real
  | Blur real
  | SpringAnimation bool

fun set_option :: "option_entry \<Rightarrow> Options \<Rightarrow> Options" where
  "set_option (SurfaceType v) opts = opts\<lparr>surfaceType := v\<rparr>"
| "set_option (BezelWidth v) opts = opts\<lparr>bezelWidth := v\<rparr>"
| "set_option (GlassThickness v) opts = opts\<lparr>glassThickness := v\<rparr>"
| "set_option (RefractiveIndex v) opts = opts\<lparr>refractiveIndex := v\<rparr>"
| "set_option (RefractionScale v) opts = opts\<lparr>refractionScale := v\<rparr>"
| "set_option (SpecularOpacity v) opts = opts\<lparr>specularOpacity := v\<rparr>"
| "set_option (Blur v) opts = opts\<lparr>blur := v\<rparr>"
| "set_option (SpringAnimation v) opts = opts\<lparr>springAnimation := v\<rparr>"

text \<open>\<open>this.dimensions\<close>: the element's width and height in pixels and its corner radius.\<close>

record Dimensions =
  dim_width :: nat
  dim_height :: nat
  borderRadius :: real

text \<open>
  \<open>this.state\<close>, without the pointer bookkeeping of the drag handlers (\<open>dragOffset\<close>,
  \<open>lastX\<close>, \<open>lastY\<close>, \<open>lastTime\<close>).
\<close>

record State =
  isDragging :: bool
  velocityX :: real
  velocityY :: real
  maximumDisplacement :: maxval

record Springs =
  scale :: Spring
  scaleX :: Spring
  scaleY :: Spring
  shadowOffsetX :: Spring
  shadowOffsetY :: Spring
  shadowBlur :: Spring
  shadowAlpha :: Spring
  refractionBoost :: Spring

text \<open>
  The instance. \<open>displacementImage\<close> and \<open>specularImage\<close> are the buffers last handed to
  the two \<open>feImage\<close> elements; the other writes to the document (styles, filter
  attributes) do not feed back into the engine and are left out.
\<close>

record LiquidGlass =
  options :: Options
  dimensions :: Dimensions
  state :: State
  springs :: Springs
  animationFrameId :: "nat option"
  displacementImage :: "ImageData option"
  specularImage :: "ImageData option"

text \<open>The fields as the constructor leaves them before \<open>_init\<close>.\<close>

definition new_LiquidGlass :: "Options \<Rightarrow> Dimensions \<Rightarrow> LiquidGlass" where
  "new_LiquidGlass opts dims =
     (let k = fst (springConfig opts); c = snd (springConfig opts)
      in \<lparr>options = opts, dimensions = dims,
          state = \<lparr>isDragging = False, velocityX = 0, velocityY = 0,
                   maximumDisplacement = Finite 0\<rparr>,
          springs = \<lparr>scale = new_Spring 0.85 k c,
                     scaleX = new_Spring 1 k (c + 5),
                     scaleY = new_Spring 1 k (c + 5),
                     shadowOffsetX = new_Spring 0 k (c + 5),
                     shadowOffsetY = new_Spring 4 k (c + 5),
                     shadowBlur = new_Spring 12 k (c + 5),
                     shadowAlpha = new_Spring 0.15 (k - 100) c,
                     refractionBoost = new_Spring 0.8 (k - 100) (c - 7)\<rparr>,
          animationFrameId = None, displacementImage = None, specularImage = None\<rparr>)"

subsection \<open>Rebuilding the filter\<close>

text \<open>
  \<open>SurfaceEquations[key]\<close> is a property read: an own property of the literal, or else a
  property inherited from \<open>Object.prototype\<close>. \<open>proto\<close> lists the inherited properties
  that are functions returning a number for a number; any other key reads \<open>undefined\<close>
  or a value that cannot be called, and both throw a \<open>TypeError\<close> at the first call.
\<close>

definition get_property ::
  "(string \<Rightarrow> (real \<Rightarrow> real) option) \<Rightarrow> string \<Rightarrow> (real \<Rightarrow> real) option"
where
  "get_property proto key =
     (case SurfaceEquations key of Some f \<Rightarrow> Some f | None \<Rightarrow> proto key)"

text \<open>
  Of \<open>Object.prototype\<close>: its property \<open>constructor\<close> is the function \<open>Object\<close>, and
  \<open>Object(x)\<close> for a number \<open>x\<close> is a Number object, which arithmetic converts back to
  \<open>x\<close>. The other inherited functions do not return numbers and are not listed.
\<close>

definition Object_prototype :: "string \<Rightarrow> (real \<Rightarrow> real) option" where
  "Object_prototype key = (if key = ''constructor'' then Some (\<lambda>x. x) else None)"

text \<open>
  \<open>_updateFilter\<close>. The result is the exception thrown, if any, and the instance as the
  call leaves it.
\<close>

definition updateFilter ::
  "(string \<Rightarrow> (real \<Rightarrow> real) option) \<Rightarrow> LiquidGlass \<Rightarrow> error option \<times> LiquidGlass"
where
  "updateFilter proto lg =
     (let surfaceFn = get_property proto (surfaceType (options lg))
      in case calculateDisplacementMap1D (glassThickness (options lg)) (bezelWidth (options lg))
                surfaceFn (refractiveIndex (options lg)) None of
           Inl e \<Rightarrow> (Some e, lg)
         | Inr precomputed \<Rightarrow>
             (let lg1 = lg\<lparr>state := (state lg)
                         \<lparr>maximumDisplacement := Math_max (map abs precomputed)\<rparr>\<rparr>
              in case calculateDisplacementMap2D
                        (dim_width (dimensions lg1)) (dim_height (dimensions lg1))
                        (dim_width (dimensions lg1)) (dim_height (dimensions lg1))
                        (borderRadius (dimensions lg1)) (bezelWidth (options lg1))
                        (or_one (maximumDisplacement (state lg1))) precomputed of
                   Inl e \<Rightarrow> (Some e, lg1)
                 | Inr displacementData \<Rightarrow>
                     (case calculateSpecularHighlight
                             (dim_width (dimensions lg1)) (dim_height (dimensions lg1))
                             (borderRadius (dimensions lg1)) (bezelWidth (options lg1)) None of
                        Inl e \<Rightarrow> (Some e, lg1)
                      | Inr specularData \<Rightarrow>
                          (None, lg1\<lparr>displacementImage := Some displacementData,
                                     specularImage := Some specularData\<rparr>))))"

definition setOptions ::
  "(string \<Rightarrow> (real \<Rightarrow> real) option) \<Rightarrow> option_entry list \<Rightarrow> LiquidGlass
   \<Rightarrow> error option \<times> LiquidGlass"
where
  "setOptions proto newOptions lg =
     updateFilter proto (lg\<lparr>options := fold set_option newOptions (options lg)\<rparr>)"

subsection \<open>The animation loop\<close>

text \<open>
  \<open>_startAnimationLoop\<close>; \<open>frameId\<close> is the handle that \<open>requestAnimationFrame\<close>
  returns (handles are positive).
\<close>

definition startAnimationLoop :: "nat \<Rightarrow> LiquidGlass \<Rightarrow> LiquidGlass" where
  "startAnimationLoop frameId lg =
     (if animationFrameId lg = None \<and> springAnimation (options lg)
      then lg\<lparr>animationFrameId := Some frameId\<rparr> else lg)"

text \<open>\<open>_startDrag\<close> and \<open>_endDrag\<close>, without the position of the element.\<close>

definition startDrag :: "nat \<Rightarrow> LiquidGlass \<Rightarrow> LiquidGlass" where
  "startDrag frameId lg =
     startAnimationLoop frameId
       (lg\<lparr>state := (state lg)\<lparr>isDragging := True, velocityX := 0, velocityY := 0\<rparr>\<rparr>)"


text \<open>The targets set from the mode, then from the squish rule.\<close>

definition mode_targets :: "bool \<Rightarrow> Springs \<Rightarrow> Springs" where
  "mode_targets dragging sp =
     (if dragging then
        sp\<lparr>scale := setTarget 1.0 (scale sp),
           shadowOffsetX := setTarget 4 (shadowOffsetX sp),
           shadowOffsetY := setTarget 16 (shadowOffsetY sp),
           shadowBlur := setTarget 24 (shadowBlur sp),
           shadowAlpha := setTarget 0.22 (shadowAlpha sp),
           refractionBoost := setTarget 1.0 (refractionBoost sp)\<rparr>
      else
        sp\<lparr>scale := setTarget 0.85 (scale sp),
           shadowOffsetX := setTarget 0 (shadowOffsetX sp),
           shadowOffsetY := setTarget 4 (shadowOffsetY sp),
           shadowBlur := setTarget 12 (shadowBlur sp),
           shadowAlpha := setTarget 0.15 (shadowAlpha sp),
           refractionBoost := setTarget 0.8 (refractionBoost sp)\<rparr>)"

definition squish_targets :: "real \<Rightarrow> real \<Rightarrow> Springs \<Rightarrow> Springs" where
  "squish_targets vx vy sp =
     (let velocityMagnitude = sqrt (vx * vx + vy * vy);
          squishAmount = min 0.15 (velocityMagnitude / 3000)
      in if velocityMagnitude > 50 then
           (let vxNorm = vx / velocityMagnitude;
                vyNorm = vy / velocityMagnitude
            in sp\<lparr>scaleX := setTarget
                       (1 + squishAmount * \<bar>vxNorm\<bar> - squishAmount * 0.5 * \<bar>vyNorm\<bar>) (scaleX sp),
                  scaleY := setTarget
                       (1 + squishAmount * \<bar>vyNorm\<bar> - squishAmount * 0.5 * \<bar>vxNorm\<bar>) (scaleY sp)\<rparr>)
         else sp\<lparr>scaleX := setTarget 1 (scaleX sp), scaleY := setTarget 1 (scaleY sp)\<rparr>)"

text \<open>The eight \<open>update(dt)\<close> calls.\<close>

definition update_all :: "real \<Rightarrow> Springs \<Rightarrow> Springs" where
  "update_all dt sp =
     sp\<lparr>scale := update dt (scale sp),
        scaleX := update dt (scaleX sp),
        scaleY := update dt (scaleY sp),
        shadowOffsetX := update dt (shadowOffsetX sp),
        shadowOffsetY := update dt (shadowOffsetY sp),
        shadowBlur := update dt (shadowBlur sp),
        shadowAlpha := update dt (shadowAlpha sp),
        refractionBoost := update dt (refractionBoost sp)\<rparr>"

text \<open>
  The variable \<open>allSettled\<close> at the end of a tick: the \<open>for\<close> loop over the eight
  springs, then the two velocity tests.
\<close>

definition allSettled :: "Springs \<Rightarrow> State \<Rightarrow> bool" where
  "allSettled sp st =
     ((isSettled (scale sp) \<and> isSettled (scaleX sp) \<and> isSettled (scaleY sp)
       \<and> isSettled (shadowOffsetX sp) \<and> isSettled (shadowOffsetY sp)
       \<and> isSettled (shadowBlur sp) \<and> isSettled (shadowAlpha sp)
       \<and> isSettled (refractionBoost sp))
      \<and> \<bar>velocityX st\<bar> < 1 \<and> \<bar>velocityY st\<bar> < 1)"

text \<open>
  \<open>_animationLoop\<close>: one tick. \<open>frameId\<close> is the handle of the next request, used when
  the loop reschedules itself.
\<close>

definition animationLoop :: "nat \<Rightarrow> LiquidGlass \<Rightarrow> LiquidGlass" where
  "animationLoop frameId lg =
     (let dt = min 0.032 (1 / 60);
          st = state lg;
          sp1 = mode_targets (isDragging st) (springs lg);
          sp2 = squish_targets (velocityX st) (velocityY st) sp1;
          sp3 = update_all dt sp2;
          st1 = (if \<not> isDragging st
                 then st\<lparr>velocityX := velocityX st * 0.95, velocityY := velocityY st * 0.95\<rparr>
                 else st)
      in lg\<lparr>springs := sp3, state := st1,
            animationFrameId := (if \<not> allSettled sp3 st1 then Some frameId else None)\<rparr>)"


section \<open>Properties\<close>

declare loop1D.simps [simp del]
declare fill_neutral.simps [simp del]

subsection \<open>Surface profiles\<close>

lemma smootherstep_ends: "smootherstep 0 = 0" "smootherstep 1 = 1"
  by (simp_all add: smootherstep_def)

lemma lip_at_0: "lip 0 = 0"
  by (simp add: lip_def lip_convex_def smootherstep_def)

lemma lip_at_1: "lip 1 = 1 / 10"
  by (simp add: lip_def lip_concave_def smootherstep_def)

text \<open>
  C2, as stated, fails at \<open>x = 1\<close>: there the blend weight is 1 and multiplies the concave
  branch of \<open>lip\<close>, whose value is \<open>0.1\<close>, while \<open>convex_squircle\<close> is 1 at its boundary.
\<close>

theorem lip_at_1_is_not_convex_squircle: "lip 1 \<noteq> convex_squircle 1"
  by (simp add: lip_def lip_concave_def smootherstep_def convex_squircle_def)

text \<open>
  C2, amended: the smootherstep weight is 0 at \<open>x = 0\<close> and 1 at \<open>x = 1\<close>, and it weights the
  concave branch. So at \<open>x = 0\<close> the lip profile is its convex branch, 0, which is also
  the value of \<open>concave\<close> and of \<open>convex_squircle\<close> at 0; at \<open>x = 1\<close> it is its concave
  branch \<open>1 - sqrt (1 - (1 - x)\<^sup>2) + 0.1\<close>, that is \<open>0.1\<close>.
\<close>

theorem lip_endpoints:
  "smootherstep 0 = 0 \<and> smootherstep 1 = 1
   \<and> lip 0 = lip_convex 0 \<and> lip 0 = concave 0 \<and> lip 0 = convex_squircle 0 \<and> lip 0 = 0
   \<and> lip 1 = lip_concave 1 \<and> lip 1 = 1 / 10"
  by (simp add: lip_at_0 lip_at_1 smootherstep_ends lip_convex_def lip_concave_def
      concave_def convex_squircle_def)

subsection \<open>Refraction solver\<close>

lemma loop1D_Some:
  "loop1D gt bw (Some f) eta n i acc = Inr (acc @ map (sample1D gt bw f eta n) [i..<n])"
proof (induction "n - i" arbitrary: i acc)
  case 0
  then show ?case by (subst loop1D.simps) simp
next
  case (Suc d)
  then have "i < n" "d = n - Suc i" by simp_all
  then show ?case
    using Suc.hyps(1) [of "Suc i"] by (subst loop1D.simps) (simp add: upt_conv_Cons)
qed

lemma loop1D_None: "i < n \<Longrightarrow> loop1D gt bw None eta n i acc = Inl TypeError"
  by (subst loop1D.simps) simp

lemma solver_table:
  "calculateDisplacementMap1D gt bw (Some f) ri (Some n)
     = Inr (map (sample1D gt bw f (1 / ri) (if n = 0 then 128 else n))
              [0..<(if n = 0 then 128 else n)])"
  by (simp add: calculateDisplacementMap1D_def loop1D_Some)

lemma solver_table_default:
  "calculateDisplacementMap1D gt bw (Some f) ri None
     = Inr (map (sample1D gt bw f (1 / ri) 128) [0..<128])"
  by (simp add: calculateDisplacementMap1D_def loop1D_Some)

lemma solver_undefined_profile:
  "calculateDisplacementMap1D gt bw None ri n = Inl TypeError"
  by (simp add: calculateDisplacementMap1D_def loop1D_None split: option.split)




text \<open>
  C10: for a sample count \<open>N \<ge> 1\<close> and an index \<open>i < N\<close> the coordinate \<open>x = i / N\<close> lies in
  \<open>[0, 1)\<close>, so the step chosen is \<open>+10\<^sup>-\<^sup>4\<close> (the branch for \<open>x \<ge> 1\<close> is never taken) and
  the entry is the one computed with that step; the clamped abscissa \<open>x + 10\<^sup>-\<^sup>4\<close> stays
  in \<open>[0, 1]\<close>.
\<close>

theorem sample_step_is_forward:
  assumes "1 \<le> N" and "i < N"
  shows "0 \<le> sample_x N i \<and> sample_x N i < 1
    \<and> sample_dx (sample_x N i) = 1 / 10000
    \<and> 0 \<le> perturbed (sample_x N i) (sample_dx (sample_x N i))
    \<and> perturbed (sample_x N i) (sample_dx (sample_x N i)) \<le> 1
    \<and> sample1D gt bw f eta N i = sample_at gt bw f eta (sample_x N i) (1 / 10000)"
proof -
  have x: "sample_x N i < 1"
    using assms by (simp add: sample_x_def)
  then show ?thesis
    by (simp add: sample1D_def sample_dx_def perturbed_def sample_x_def)
qed

theorem sample_step_is_forward_witness:
  "(1::nat) \<le> 128 \<and> (127::nat) < 128 \<and> sample_x 128 127 < 1
   \<and> sample_dx (sample_x 128 127) = 1 / 10000"
  using sample_step_is_forward [of 128 127] by simp

subsection \<open>Pixel stores and the pixel loop\<close>


lemma length_ta_set [simp]: "length (ta_set d idx v) = length d"
  by (simp add: ta_set_def)

lemma length_store_pixel [simp]: "length (store_pixel d idx px) = length d"
  by (simp add: store_pixel_def split: prod.split)






lemma fold_nested_product:
  "fold (\<lambda>y. fold (\<lambda>x. h x y) xs) ys d = fold (\<lambda>(y, x). h x y) (List.product ys xs) d"
proof (induction ys arbitrary: d)
  case Nil
  then show ?case by simp
next
  case (Cons y ys)
  then show ?case by (simp add: fold_map comp_def)
qed

lemma length_fill_neutral [simp]: "length (fill_neutral i d) = length d"
proof (induction i d rule: fill_neutral.induct)
  case (1 i d)
  then show ?case
    by (subst fill_neutral.simps) simp
qed


lemma raster_loop_product:
  "raster_loop idx px oW oH d
     = fold (\<lambda>(y1, x1) d. case px x1 y1 of None \<Rightarrow> d | Some v \<Rightarrow> store_pixel d (idx x1 y1) v)
         (List.product [0..<oH] [0..<oW]) d"
  unfolding raster_loop_def by (rule fold_nested_product)


lemma length_raster_loop [simp]: "length (raster_loop idx px oW oH d) = length d"
proof -
  have "length (fold (\<lambda>(y1, x1) d. case px x1 y1 of None \<Rightarrow> d
                        | Some v \<Rightarrow> store_pixel d (idx x1 y1) v) cs d) = length d" for cs
    by (induction cs arbitrary: d) (auto split: option.split)
  then show ?thesis
    by (simp add: raster_loop_product)
qed











subsection \<open>Displacement rasterizer\<close>




subsection \<open>Specular rasterizer\<close>



subsection \<open>Maximum displacement and the filter rebuild\<close>

lemma Math_max_fold:
  "fold (\<lambda>v m. case m of NegInfinity \<Rightarrow> Finite v | Finite u \<Rightarrow> Finite (max u v)) xs (Finite a)
     = Finite (fold max xs a)"
  by (induction xs arbitrary: a) (simp_all add: max.commute)

lemma Math_max_nonempty: "xs \<noteq> [] \<Longrightarrow> Math_max xs = Finite (Max (set xs))"
proof (cases xs)
  case Nil
  assume "xs \<noteq> []"
  with Nil show ?thesis by simp
next
  case (Cons x ys)
  then show ?thesis
    by (simp add: Math_max_def Math_max_fold Max.set_eq_fold del: set_simps)
qed

lemma Math_max_empty: "Math_max [] = NegInfinity"
  by (simp add: Math_max_def)

lemma or_one_not_zero: "or_one m \<noteq> Finite 0"
  by (simp add: or_one_def split: maxval.split)

lemma updateFilter_undefined:
  "get_property proto (surfaceType (options lg)) = None \<Longrightarrow>
   updateFilter proto lg = (Some TypeError, lg)"
  by (simp add: updateFilter_def solver_undefined_profile)

lemma displacement_map_ok:
  "0 < cW \<Longrightarrow> 0 < cH \<Longrightarrow> \<exists>img. calculateDisplacementMap2D cW cH oW oH r bw md t = Inr img"
  by (simp add: calculateDisplacementMap2D_def new_ImageData_def Let_def)

lemma specular_ok:
  "0 < oW \<Longrightarrow> 0 < oH \<Longrightarrow> \<exists>img. calculateSpecularHighlight oW oH r bw a = Inr img"
  by (simp add: calculateSpecularHighlight_def new_ImageData_def Let_def)

lemma updateFilter_defined:
  assumes "get_property proto (surfaceType (options lg)) = Some f"
    and "0 < dim_width (dimensions lg)" and "0 < dim_height (dimensions lg)"
  shows "fst (updateFilter proto lg) = None"
proof -
  obtain t where t: "calculateDisplacementMap1D (glassThickness (options lg))
      (bezelWidth (options lg)) (Some f) (refractiveIndex (options lg)) None = Inr t"
    using solver_table_default by blast
  obtain d where d: "calculateDisplacementMap2D
      (dim_width (dimensions lg)) (dim_height (dimensions lg))
      (dim_width (dimensions lg)) (dim_height (dimensions lg))
      (borderRadius (dimensions lg)) (bezelWidth (options lg))
      (or_one (Math_max (map abs t))) t = Inr d"
    using displacement_map_ok [OF assms(2,3)] by blast
  obtain s where s: "calculateSpecularHighlight
      (dim_width (dimensions lg)) (dim_height (dimensions lg))
      (borderRadius (dimensions lg)) (bezelWidth (options lg)) None = Inr s"
    using specular_ok [OF assms(2,3)] by blast
  show ?thesis
    by (simp add: updateFilter_def Let_def assms(1) t d s)
qed

lemma solver_table_nonempty:
  "calculateDisplacementMap1D gt bw sf ri n = Inr t \<Longrightarrow> t \<noteq> []"
proof (cases sf)
  case None
  assume "calculateDisplacementMap1D gt bw sf ri n = Inr t"
  with None show ?thesis by (simp add: solver_undefined_profile)
next
  case (Some f)
  assume r: "calculateDisplacementMap1D gt bw sf ri n = Inr t"
  show ?thesis
  proof (cases n)
    case None
    with r Some show ?thesis by (auto simp: solver_table_default)
  next
    case (Some k)
    with r \<open>sf = Some f\<close> show ?thesis by (auto simp: solver_table split: if_splits)
  qed
qed

lemma updateFilter_success:
  assumes "updateFilter proto lg = (None, lg')"
  shows "\<exists>f table img.
    get_property proto (surfaceType (options lg)) = Some f
    \<and> calculateDisplacementMap1D (glassThickness (options lg)) (bezelWidth (options lg)) (Some f)
          (refractiveIndex (options lg)) None = Inr table
    \<and> table \<noteq> []
    \<and> maximumDisplacement (state lg') = Math_max (map abs table)
    \<and> calculateDisplacementMap2D (dim_width (dimensions lg)) (dim_height (dimensions lg))
          (dim_width (dimensions lg)) (dim_height (dimensions lg))
          (borderRadius (dimensions lg)) (bezelWidth (options lg))
          (or_one (Math_max (map abs table))) table = Inr img
    \<and> displacementImage lg' = Some img"
  and "specularImage lg' \<noteq> None"
proof -
  obtain f where f: "get_property proto (surfaceType (options lg)) = Some f"
    using assms by (cases "get_property proto (surfaceType (options lg))")
      (simp_all add: updateFilter_undefined)
  obtain t where t: "calculateDisplacementMap1D (glassThickness (options lg))
      (bezelWidth (options lg)) (Some f) (refractiveIndex (options lg)) None = Inr t"
    using solver_table_default by blast
  have ne: "t \<noteq> []"
    using t by (rule solver_table_nonempty)
  show "\<exists>f table img.
    get_property proto (surfaceType (options lg)) = Some f
    \<and> calculateDisplacementMap1D (glassThickness (options lg)) (bezelWidth (options lg)) (Some f)
          (refractiveIndex (options lg)) None = Inr table
    \<and> table \<noteq> []
    \<and> maximumDisplacement (state lg') = Math_max (map abs table)
    \<and> calculateDisplacementMap2D (dim_width (dimensions lg)) (dim_height (dimensions lg))
          (dim_width (dimensions lg)) (dim_height (dimensions lg))
          (borderRadius (dimensions lg)) (bezelWidth (options lg))
          (or_one (Math_max (map abs table))) table = Inr img
    \<and> displacementImage lg' = Some img"
    using assms ne
    by (auto simp: updateFilter_def Let_def f t split: sum.splits)
  show "specularImage lg' \<noteq> None"
    using assms
    by (auto simp: updateFilter_def Let_def f t split: sum.splits)
qed

text \<open>
  C4: \<open>maximumDisplacement\<close> is the largest absolute value of a table entry
  (\<open>-Infinity\<close> for a table without entries, which the solver never returns). The value
  handed to the displacement rasterizer is 1 when that maximum is 0 and the maximum
  itself otherwise; it is never 0. For a table with entries it is positive, and the
  per-pixel normalization is a division by it, which multiplying back undoes; for
  \<open>-Infinity\<close> the guard \<open>maximumDisplacement > 0\<close> of the rasterizer skips the division.
  This is the value that a successful \<open>_updateFilter\<close> stores and passes on.
\<close>

theorem maximum_displacement_divisor:
  "Math_max (map abs t) = (if t = [] then NegInfinity else Finite (Max (abs ` set t)))
   \<and> or_one (Math_max (map abs t))
       = (if t = [] then NegInfinity
          else Finite (if Max (abs ` set t) = 0 then 1 else Max (abs ` set t)))
   \<and> or_one (Math_max (map abs t)) \<noteq> Finite 0
   \<and> (t \<noteq> [] \<longrightarrow>
         0 < (if Max (abs ` set t) = 0 then 1 else Max (abs ` set t))
         \<and> normalized (or_one (Math_max (map abs t))) v
             = v / (if Max (abs ` set t) = 0 then 1 else Max (abs ` set t))
         \<and> normalized (or_one (Math_max (map abs t))) v
               * (if Max (abs ` set t) = 0 then 1 else Max (abs ` set t)) = v)
   \<and> (t = [] \<longrightarrow> normalized (or_one (Math_max (map abs t))) v = 0)
   \<and> (updateFilter proto lg = (None, lg') \<longrightarrow>
         (\<exists>f table img.
            get_property proto (surfaceType (options lg)) = Some f
            \<and> calculateDisplacementMap1D (glassThickness (options lg)) (bezelWidth (options lg))
                 (Some f) (refractiveIndex (options lg)) None = Inr table
            \<and> table \<noteq> []
            \<and> maximumDisplacement (state lg') = Math_max (map abs table)
            \<and> calculateDisplacementMap2D (dim_width (dimensions lg)) (dim_height (dimensions lg))
                 (dim_width (dimensions lg)) (dim_height (dimensions lg))
                 (borderRadius (dimensions lg)) (bezelWidth (options lg))
                 (or_one (Math_max (map abs table))) table = Inr img
            \<and> displacementImage lg' = Some img))"
proof -
  have U: "updateFilter proto lg = (None, lg') \<longrightarrow>
         (\<exists>f table img.
            get_property proto (surfaceType (options lg)) = Some f
            \<and> calculateDisplacementMap1D (glassThickness (options lg)) (bezelWidth (options lg))
                 (Some f) (refractiveIndex (options lg)) None = Inr table
            \<and> table \<noteq> []
            \<and> maximumDisplacement (state lg') = Math_max (map abs table)
            \<and> calculateDisplacementMap2D (dim_width (dimensions lg)) (dim_height (dimensions lg))
                 (dim_width (dimensions lg)) (dim_height (dimensions lg))
                 (borderRadius (dimensions lg)) (bezelWidth (options lg))
                 (or_one (Math_max (map abs table))) table = Inr img
            \<and> displacementImage lg' = Some img)"
    using updateFilter_success(1) [of proto lg lg'] by blast
  have nz: "or_one (Math_max (map abs t)) \<noteq> Finite 0"
    by (rule or_one_not_zero)
  show ?thesis
  proof (cases "t = []")
    case True
    have "Math_max (map abs t) = NegInfinity" "or_one (Math_max (map abs t)) = NegInfinity"
      "normalized (or_one (Math_max (map abs t))) v = 0"
      using True by (simp_all add: Math_max_def or_one_def normalized_def)
    then show ?thesis
      using True nz U by simp
  next
    case False
    define M where "M = Max (abs ` set t)"
    have mm: "Math_max (map abs t) = Finite M"
      using False Math_max_nonempty [of "map abs t"] by (simp add: M_def)
    obtain x where "x \<in> set t" using False by (cases t) auto
    then have "\<bar>x\<bar> \<le> M"
      unfolding M_def by (intro Max_ge) auto
    then have nonneg: "0 \<le> M" by linarith
    then have pos: "0 < (if M = 0 then 1 else M)" by simp
    have o: "or_one (Math_max (map abs t)) = Finite (if M = 0 then 1 else M)"
      by (simp add: mm or_one_def)
    have n: "normalized (or_one (Math_max (map abs t))) v = v / (if M = 0 then 1 else M)"
      using pos by (simp add: o normalized_def)
    have undo: "normalized (or_one (Math_max (map abs t))) v * (if M = 0 then 1 else M) = v"
      unfolding n using pos by simp
    show ?thesis
      unfolding M_def [symmetric]
      using False mm o pos n undo nz U by (simp only: if_False simp_thms)
  qed
qed

theorem maximum_displacement_divisor_witness:
  "Math_max (map abs [0, - 3, 2]) = Finite 3
   \<and> or_one (Math_max (map abs [0, 0])) = Finite 1
   \<and> normalized (or_one (Math_max (map abs [0, 0]))) 5 = 5
   \<and> normalized (or_one (Math_max (map abs []))) 5 = 0"
  using maximum_displacement_divisor [of "[0, - 3, 2]" 0]
    maximum_displacement_divisor [of "[0, 0]" 5] maximum_displacement_divisor [of "[]" 5]
  by (simp add: Math_max_def or_one_def normalized_def)

text \<open>
  C1, as stated, fails: nothing checks \<open>surfaceType\<close> against the four profiles. The
  name \<open>constructor\<close> is none of them, but the property read finds the function that
  every object inherits, the solver runs with it as the profile, both rasterizers run
  and deliver their buffers, and \<open>setOptions\<close> returns without an error.
\<close>

theorem inherited_constructor_is_accepted:
  "''constructor'' \<notin> {''convex_circle'', ''convex_squircle'', ''concave'', ''lip''}
   \<and> fst (setOptions Object_prototype [SurfaceType ''constructor'']
            (new_LiquidGlass defaultOptions \<lparr>dim_width = 2, dim_height = 2, borderRadius = 0\<rparr>))
       = None
   \<and> displacementImage
         (snd (setOptions Object_prototype [SurfaceType ''constructor'']
            (new_LiquidGlass defaultOptions \<lparr>dim_width = 2, dim_height = 2, borderRadius = 0\<rparr>)))
       \<noteq> None
   \<and> specularImage
         (snd (setOptions Object_prototype [SurfaceType ''constructor'']
            (new_LiquidGlass defaultOptions \<lparr>dim_width = 2, dim_height = 2, borderRadius = 0\<rparr>)))
       \<noteq> None"
proof -
  define lg where "lg = (new_LiquidGlass defaultOptions
      \<lparr>dim_width = 2, dim_height = 2, borderRadius = 0\<rparr>)
      \<lparr>options := fold set_option [SurfaceType ''constructor'']
         (options (new_LiquidGlass defaultOptions
            \<lparr>dim_width = 2, dim_height = 2, borderRadius = 0\<rparr>))\<rparr>"
  have "surfaceType (options lg) = ''constructor''"
    and "dimensions lg = \<lparr>dim_width = 2, dim_height = 2, borderRadius = 0\<rparr>"
    by (simp_all add: lg_def new_LiquidGlass_def Let_def)
  then have ok: "fst (updateFilter Object_prototype lg) = None"
    by (intro updateFilter_defined [where f = "\<lambda>x. x"])
      (simp_all add: get_property_def SurfaceEquations_def Object_prototype_def)
  then have "updateFilter Object_prototype lg = (None, snd (updateFilter Object_prototype lg))"
    by (simp add: prod_eq_iff)
  from updateFilter_success [OF this] ok show ?thesis
    unfolding setOptions_def lg_def [symmetric] by auto
qed

text \<open>
  C1, amended: when the \<open>surfaceType\<close> of the merged options is none of the four profiles
  and is not inherited from \<open>Object.prototype\<close> either, \<open>setOptions\<close> stores the merged
  options and then throws a \<open>TypeError\<close>; the exception is the one raised inside the
  one-dimensional solver, at the first call of the profile, so no table entry is
  computed, neither rasterizer runs, and nothing but the options has changed.
\<close>

theorem setOptions_undefined_surface:
  assumes "opts = fold set_option newOptions (options lg)"
    and "surfaceType opts \<notin> {''convex_circle'', ''convex_squircle'', ''concave'', ''lip''}"
    and "proto (surfaceType opts) = None"
  shows "setOptions proto newOptions lg = (Some TypeError, lg\<lparr>options := opts\<rparr>)
    \<and> calculateDisplacementMap1D (glassThickness opts) (bezelWidth opts)
          (get_property proto (surfaceType opts)) (refractiveIndex opts) None = Inl TypeError"
proof -
  have "get_property proto (surfaceType opts) = None"
    using assms(2,3) by (simp add: get_property_def SurfaceEquations_def)
  then show ?thesis
    by (simp add: setOptions_def assms(1) [symmetric] updateFilter_undefined
        solver_undefined_profile)
qed

theorem setOptions_undefined_surface_witness:
  "setOptions Object_prototype [SurfaceType ''bogus'']
     (new_LiquidGlass defaultOptions \<lparr>dim_width = 2, dim_height = 2, borderRadius = 0\<rparr>)
   = (Some TypeError,
      new_LiquidGlass (defaultOptions\<lparr>surfaceType := ''bogus''\<rparr>)
        \<lparr>dim_width = 2, dim_height = 2, borderRadius = 0\<rparr>)"
  using setOptions_undefined_surface
    [of "defaultOptions\<lparr>surfaceType := ''bogus''\<rparr>" "[SurfaceType ''bogus'']"
        "new_LiquidGlass defaultOptions \<lparr>dim_width = 2, dim_height = 2, borderRadius = 0\<rparr>"
        Object_prototype]
  by (simp add: new_LiquidGlass_def defaultOptions_def Object_prototype_def Let_def)

subsection \<open>Spring integrator\<close>

text \<open>
  C7: one update step is a semi-implicit Euler step with unit mass: the force is
  \<open>stiffness \<times> (target - value) - damping \<times> velocity\<close>, the velocity advances by
  \<open>force \<times> dt\<close>, and the value advances by the new velocity times \<open>dt\<close>; target, stiffness
  and damping are unchanged. \<open>isSettled\<close> holds exactly when both \<open>|target - value|\<close> and
  \<open>|velocity|\<close> are below \<open>10\<^sup>-\<^sup>3\<close>. A step with \<open>dt = 0\<close> changes neither value nor
  velocity.
\<close>

theorem spring_update_semi_implicit_euler:
  "velocity (update dt s)
     = velocity s + (stiffness s * (target s - value s) - damping s * velocity s) * dt
   \<and> value (update dt s) = value s + velocity (update dt s) * dt
   \<and> target (update dt s) = target s
   \<and> stiffness (update dt s) = stiffness s
   \<and> damping (update dt s) = damping s
   \<and> isSettled s = (\<bar>target s - value s\<bar> < 1 / 1000 \<and> \<bar>velocity s\<bar> < 1 / 1000)
   \<and> update 0 s = s"
  by (simp add: update_def isSettled_def Let_def mult.commute)

subsection \<open>Animation loop\<close>

lemma target_update [simp]: "target (update dt s) = target s"
  by (simp add: update_def Let_def)

lemma target_setTarget [simp]: "target (setTarget t s) = t"
  by (simp add: setTarget_def)

text \<open>
  C8: after a tick the targets of \<open>scale\<close>, \<open>shadowOffsetX\<close>, \<open>shadowOffsetY\<close>,
  \<open>shadowBlur\<close>, \<open>shadowAlpha\<close> and \<open>refractionBoost\<close> are those of the mode table
  (dragging: 1.0, 4, 16, 24, 0.22, 1.0; idle: 0.85, 0, 4, 12, 0.15, 0.8), and the targets
  of \<open>scaleX\<close> and \<open>scaleY\<close> follow the squish rule: with
  \<open>squish = min(0.15, velocityMagnitude / 3000)\<close>, if \<open>velocityMagnitude > 50\<close> they are
  \<open>1 + squish \<times> |vxNorm| - 0.5 \<times> squish \<times> |vyNorm|\<close> and its mirror image, else both
  are 1.
\<close>

theorem animation_tick_targets:
  "(let sp = springs (animationLoop h lg);
        dragging = isDragging (state lg);
        vx = velocityX (state lg);
        vy = velocityY (state lg);
        velocityMagnitude = sqrt (vx * vx + vy * vy);
        squish = min 0.15 (velocityMagnitude / 3000);
        vxNorm = vx / velocityMagnitude;
        vyNorm = vy / velocityMagnitude
    in target (scale sp) = (if dragging then 1.0 else 0.85)
     \<and> target (shadowOffsetX sp) = (if dragging then 4 else 0)
     \<and> target (shadowOffsetY sp) = (if dragging then 16 else 4)
     \<and> target (shadowBlur sp) = (if dragging then 24 else 12)
     \<and> target (shadowAlpha sp) = (if dragging then 0.22 else 0.15)
     \<and> target (refractionBoost sp) = (if dragging then 1.0 else 0.8)
     \<and> target (scaleX sp)
         = (if velocityMagnitude > 50
            then 1 + squish * \<bar>vxNorm\<bar> - 0.5 * squish * \<bar>vyNorm\<bar> else 1)
     \<and> target (scaleY sp)
         = (if velocityMagnitude > 50
            then 1 + squish * \<bar>vyNorm\<bar> - 0.5 * squish * \<bar>vxNorm\<bar> else 1))"
  by (simp add: animationLoop_def mode_targets_def squish_targets_def update_all_def Let_def)

theorem animation_tick_targets_witness:
  "(let lg = (new_LiquidGlass defaultOptions \<lparr>dim_width = 2, dim_height = 2, borderRadius = 0\<rparr>)
              \<lparr>state := \<lparr>isDragging = True, velocityX = 60, velocityY = 0,
                           maximumDisplacement = Finite 1\<rparr>\<rparr>;
        sp = springs (animationLoop 1 lg)
    in target (scale sp) = 1 \<and> target (shadowBlur sp) = 24
       \<and> target (scaleX sp) = 1.02 \<and> target (scaleY sp) = 0.99)"
proof -
  have s: "sqrt 3600 = 60"
    by (rule real_sqrt_unique) simp_all
  show ?thesis
    using animation_tick_targets
      [of 1 "(new_LiquidGlass defaultOptions \<lparr>dim_width = 2, dim_height = 2, borderRadius = 0\<rparr>)
              \<lparr>state := \<lparr>isDragging = True, velocityX = 60, velocityY = 0,
                           maximumDisplacement = Finite 1\<rparr>\<rparr>"]
    by (simp add: Let_def s)
qed








lemma new_Spring_rest [simp]:
  "value (new_Spring v k c) = v" "target (new_Spring v k c) = v" "velocity (new_Spring v k c) = 0"
  by (simp_all add: new_Spring_def)






end
